theory Spec2Isabelle
  imports Main
begin

section \<open>The file-metadata store (src/store/fileMetadataStore.ts)\<close>

text \<open>
  The class \<^verbatim>\<open>FileMetadataStore\<close> keeps the observable search state and sync state of
  the site and talks to a \<^verbatim>\<open>FileMetadataDatabase\<close>, whose code lives in another module.
  The model below follows the class member by member. Mutation of \<^verbatim>\<open>this\<close> is explicit
  state passing; a promise that rejects and a \<^verbatim>\<open>throw\<close> are the \<open>Inl\<close> branch of a sum; what
  the database answers is a parameter of each operation. The \<^verbatim>\<open>console\<close> calls are left out:
  they write to no field of the store.
\<close>

subsection \<open>Numbers\<close>

text \<open>
  Every numeric field of the class has the TypeScript type \<^verbatim>\<open>number\<close>, a binary64 value,
  and one of them is initialised to \<^verbatim>\<open>Infinity\<close>. The values that flow through the store
  are counts, page numbers and offsets, so the model has the numbers with an integer
  value and the three special values: \<open>Fin a\<close> is the binary64 number whose value is
  the integer \<open>a\<close>. Every integer of absolute value at most \<open>2^53\<close> is such a number; a
  larger one is when it has at most 53 significant bits and lies below \<open>2^1024\<close>.
  Numbers with a fractional part and the sign of zero are outside the model.
\<close>

datatype number = Fin int | Infinity | NegInfinity | NaN

text \<open>The integers that binary64 holds without any rounding in their neighbourhood.\<close>

definition exact_int :: "int \<Rightarrow> bool" where
  "exact_int x \<longleftrightarrow> \<bar>x\<bar> \<le> 2 ^ 53"

text \<open>
  The result of an arithmetic operation is the exact result rounded to binary64: to 53
  significant bits, a tie going to the even significand, and to an infinity when the
  rounded magnitude reaches \<open>2^1024\<close>. \<open>bit_length\<close> is the number of binary digits and
  \<open>round_significand\<close> rounds a magnitude.
\<close>

function bit_length :: "int \<Rightarrow> nat" where
  "bit_length n = (if n \<le> 0 then 0 else Suc (bit_length (n div 2)))"
  by pat_completeness auto
termination
  by (relation "measure nat") auto

definition round_significand :: "int \<Rightarrow> int" where
  "round_significand m =
     (let k = bit_length m - 53; q = m div 2 ^ k; rest = m mod 2 ^ k
      in if 2 ^ k < 2 * rest \<or> (2 * rest = 2 ^ k \<and> odd q) then (q + 1) * 2 ^ k else q * 2 ^ k)"

definition to_binary64 :: "int \<Rightarrow> number" where
  "to_binary64 x =
     (if \<bar>x\<bar> \<le> 2 ^ 53 then Fin x
      else if 2 ^ 1024 \<le> round_significand \<bar>x\<bar>
           then (if 0 < x then Infinity else NegInfinity)
      else Fin (sgn x * round_significand \<bar>x\<bar>))"

text \<open>The operator \<^verbatim>\<open>===\<close> on two numbers: \<^verbatim>\<open>NaN\<close> is equal to nothing, itself included.\<close>

fun strict_eq :: "number \<Rightarrow> number \<Rightarrow> bool" where
  "strict_eq NaN _ = False"
| "strict_eq _ NaN = False"
| "strict_eq a b = (a = b)"

text \<open>The operator \<^verbatim>\<open>-\<close> on two numbers.\<close>

fun js_sub :: "number \<Rightarrow> number \<Rightarrow> number" where
  "js_sub NaN _ = NaN"
| "js_sub _ NaN = NaN"
| "js_sub (Fin a) (Fin b) = to_binary64 (a - b)"
| "js_sub (Fin a) Infinity = NegInfinity"
| "js_sub (Fin a) NegInfinity = Infinity"
| "js_sub Infinity Infinity = NaN"
| "js_sub Infinity _ = Infinity"
| "js_sub NegInfinity NegInfinity = NaN"
| "js_sub NegInfinity _ = NegInfinity"

text \<open>The sign of a number that is not \<^verbatim>\<open>NaN\<close>, used by the product.\<close>

fun js_sign :: "number \<Rightarrow> int" where
  "js_sign (Fin a) = sgn a"
| "js_sign Infinity = 1"
| "js_sign NegInfinity = - 1"
| "js_sign NaN = 0"

text \<open>
  The operator \<^verbatim>\<open>*\<close> on two numbers: an infinite factor times zero is \<^verbatim>\<open>NaN\<close>, and
  otherwise the product with an infinite factor is the infinity of the product's sign.
\<close>

fun js_mul :: "number \<Rightarrow> number \<Rightarrow> number" where
  "js_mul NaN _ = NaN"
| "js_mul _ NaN = NaN"
| "js_mul (Fin a) (Fin b) = to_binary64 (a * b)"
| "js_mul a b =
     (if js_sign a * js_sign b = 0 then NaN
      else if 0 < js_sign a * js_sign b then Infinity else NegInfinity)"

text \<open>The operator \<^verbatim>\<open><\<close> on two numbers: every comparison with \<^verbatim>\<open>NaN\<close> is false.\<close>

fun js_less :: "number \<Rightarrow> number \<Rightarrow> bool" where
  "js_less NaN _ = False"
| "js_less _ NaN = False"
| "js_less (Fin a) (Fin b) = (a < b)"
| "js_less (Fin a) Infinity = True"
| "js_less (Fin a) NegInfinity = False"
| "js_less Infinity _ = False"
| "js_less NegInfinity NegInfinity = False"
| "js_less NegInfinity _ = True"

subsection \<open>Data\<close>

text \<open>
  The interfaces of the module. \<^verbatim>\<open>SearchParams\<close> has the field of \<^verbatim>\<open>GetLatestParams\<close> and
  one more, so it is the record extension. Three interfaces have a field called
  \<^verbatim>\<open>total\<close> and two a field called \<^verbatim>\<open>inodesSynced\<close>; each keeps the name with its owner as
  a suffix. \<^verbatim>\<open>SyncState\<close> is imported by the module from \<^verbatim>\<open>../lib/db\<close>: it is modelled with
  the two fields the store reads. What \<^verbatim>\<open>db.search\<close> and \<^verbatim>\<open>db.latest\<close> resolve with is
  read through \<^verbatim>\<open>.data\<close> and \<^verbatim>\<open>.total\<close> only, so it is an \<^verbatim>\<open>UpdateSearchResultsAction\<close>.
  The record type \<^verbatim>\<open>IpfsFileMetadata\<close> is opaque to the store: a type variable.
\<close>

record GetLatestParams =
  page :: number

record SearchParams = GetLatestParams +
  query :: string

record UpdateSyncAction =
  inodesSynced_action :: number
  totalInodes :: number

record 'r UpdateSearchResultsAction =
  data :: "'r list"
  total_action :: number

record SyncState =
  numSynced :: number
  total_state :: number

text \<open>A JavaScript \<^verbatim>\<open>Error\<close> with its message.\<close>

datatype error = Error string

text \<open>
  A \<^verbatim>\<open>FileMetadataDatabase\<close> object is known by the order of its construction: the
  first one built is handle 0, the next one handle 1.
\<close>

type_synonym handle = nat

text \<open>The calls the store makes on a database handle, with their arguments.\<close>

datatype db_call =
    DbGetSyncState handle
  | DbStartSync handle
  | DbSearch handle string number number
  | DbLatest handle number number
  | DbClearData handle

text \<open>
  The fields of the class, in the order of the source (\<^verbatim>\<open>rootStore\<close> is never read and
  \<^verbatim>\<open>ipfsClient\<close> is a constant: both are left out). Two more fields record what the store
  did to the outside: \<open>constructed\<close> counts the evaluations of
  \<^verbatim>\<open>new FileMetadataDatabase(...)\<close>, and \<open>calls\<close> lists the calls made on database
  handles, oldest first.
\<close>

record 'r FileMetadataStore =
  searchResults :: "'r list"
  loadingSearchResults :: bool
  total_store :: number
  resultsPerPage :: number
  inodesSynced :: number
  totalInodesToSync :: number
  syncError :: "error option"
  db :: "handle option"
  constructed :: nat
  calls :: "db_call list"

text \<open>
  The constructor, after the field initialisers. With \<^verbatim>\<open>autoSync\<close> it also installs the
  watcher, which does nothing but call \<^verbatim>\<open>init()\<close>; those calls are calls of \<open>init\<close> in
  the runs below.
\<close>

definition new_store :: "number \<Rightarrow> 'r FileMetadataStore" where
  "new_store rpp =
     \<lparr> searchResults = [], loadingSearchResults = False, total_store = Fin 0,
       resultsPerPage = rpp, inodesSynced = Fin 0, totalInodesToSync = Infinity,
       syncError = None, db = None, constructed = 0, calls = [] \<rparr>"

subsection \<open>The handle, the predicate and the actions\<close>

text \<open>
  \<^verbatim>\<open>getDb\<close>: the body has no \<^verbatim>\<open>await\<close>, so the test and the assignment run in one piece.
  The constructor of the database is code of another module and is taken to return. The
  result is the handle and the store after the call.
\<close>

definition getDb :: "'r FileMetadataStore \<Rightarrow> handle \<times> 'r FileMetadataStore" where
  "getDb s =
     (case db s of
        None \<Rightarrow> (constructed s, s\<lparr>db := Some (constructed s), constructed := Suc (constructed s)\<rparr>)
      | Some h \<Rightarrow> (h, s))"

text \<open>The computed getter \<^verbatim>\<open>isDbSynced\<close>.\<close>

definition isDbSynced :: "'r FileMetadataStore \<Rightarrow> bool" where
  "isDbSynced s = strict_eq (inodesSynced s) (totalInodesToSync s)"

definition updateSyncProgress :: "UpdateSyncAction \<Rightarrow> 'r FileMetadataStore \<Rightarrow> 'r FileMetadataStore" where
  "updateSyncProgress params s =
     s\<lparr>inodesSynced := inodesSynced_action params, totalInodesToSync := totalInodes params\<rparr>"

definition updateSearchResults ::
  "'r UpdateSearchResultsAction \<Rightarrow> 'r FileMetadataStore \<Rightarrow> 'r FileMetadataStore" where
  "updateSearchResults params s =
     s\<lparr>searchResults := data params, total_store := total_action params,
       loadingSearchResults := False\<rparr>"

definition clearResults :: "'r FileMetadataStore \<Rightarrow> 'r FileMetadataStore" where
  "clearResults s = s\<lparr>searchResults := [], totalInodesToSync := Infinity, inodesSynced := Fin 0\<rparr>"

subsection \<open>The operations, one piece per stretch between two awaits\<close>

text \<open>A call on a database handle, recorded.\<close>

definition call_db :: "db_call \<Rightarrow> 'r FileMetadataStore \<Rightarrow> 'r FileMetadataStore" where
  "call_db c s = s\<lparr>calls := calls s @ [c]\<rparr>"

text \<open>
  \<^verbatim>\<open>initiator\<close> inside \<^verbatim>\<open>init\<close>. After \<^verbatim>\<open>await this.getDb()\<close> it calls
  \<^verbatim>\<open>db.getSyncState()\<close>; when that resolves it publishes the state and calls
  \<^verbatim>\<open>db.startSync\<close> with the callback.
\<close>

definition initiator_getSyncState :: "handle \<Rightarrow> 'r FileMetadataStore \<Rightarrow> 'r FileMetadataStore" where
  "initiator_getSyncState h s = call_db (DbGetSyncState h) s"

definition initiator_startSync ::
  "handle \<Rightarrow> SyncState \<Rightarrow> 'r FileMetadataStore \<Rightarrow> 'r FileMetadataStore" where
  "initiator_startSync h syncState s =
     call_db (DbStartSync h)
       (updateSyncProgress
          \<lparr>inodesSynced_action = numSynced syncState, totalInodes = total_state syncState\<rparr> s)"

text \<open>
  The callback given to \<^verbatim>\<open>db.startSync\<close>. An error is logged and nothing else; a missing
  state makes the callback throw to whoever called it (\<open>Inl\<close>), before any field is
  written.
\<close>

definition startSync_callback ::
  "error option \<Rightarrow> SyncState option \<Rightarrow> 'r FileMetadataStore \<Rightarrow> error + 'r FileMetadataStore" where
  "startSync_callback err syncState s =
     (case syncState of
        None \<Rightarrow> Inl (Error ''Result must exist'')
      | Some st \<Rightarrow>
          Inr (updateSyncProgress
                 \<lparr>inodesSynced_action = numSynced st, totalInodes = total_state st\<rparr> s))"

text \<open>The handler of \<^verbatim>\<open>initiator().catch\<close>: the error it receives is logged and dropped.\<close>

definition init_catch :: "error \<Rightarrow> 'r FileMetadataStore \<Rightarrow> 'r FileMetadataStore" where
  "init_catch err s = s\<lparr>syncError := Some (Error ''Incorrect network!'')\<rparr>"

text \<open>
  One run of \<^verbatim>\<open>initiator\<close> with nothing else in between. The arguments are what
  \<^verbatim>\<open>db.getSyncState()\<close> and \<^verbatim>\<open>db.startSync(...)\<close> settle with; the second is not looked at
  when the first rejects. The result is how the promise of \<^verbatim>\<open>initiator()\<close> settles, and
  the store.
\<close>

definition initiator ::
  "error + SyncState \<Rightarrow> error + unit \<Rightarrow> 'r FileMetadataStore \<Rightarrow> (error + unit) \<times> 'r FileMetadataStore" where
  "initiator gotSyncState startedSync s =
     (case getDb s of (h, s1) \<Rightarrow>
        (case gotSyncState of
           Inl e \<Rightarrow> (Inl e, initiator_getSyncState h s1)
         | Inr syncState \<Rightarrow>
             (case startedSync of
                Inl e \<Rightarrow> (Inl e, initiator_startSync h syncState (initiator_getSyncState h s1))
              | Inr u \<Rightarrow> (Inr (), initiator_startSync h syncState (initiator_getSyncState h s1)))))"

definition init :: "error + SyncState \<Rightarrow> error + unit \<Rightarrow> 'r FileMetadataStore \<Rightarrow> 'r FileMetadataStore" where
  "init gotSyncState startedSync s =
     (case initiator gotSyncState startedSync s of
        (Inl err, s') \<Rightarrow> init_catch err s'
      | (Inr u, s') \<Rightarrow> s')"

text \<open>
  \<^verbatim>\<open>search\<close>, after \<^verbatim>\<open>await this.getDb()\<close>: the limit and the offset, the loading flag, the
  call of \<^verbatim>\<open>db.search\<close>. Then what happens when that call settles: a rejection leaves
  the function at the \<^verbatim>\<open>await\<close>, so the promise of \<^verbatim>\<open>search\<close> rejects with the same error.
\<close>

definition search_query :: "SearchParams \<Rightarrow> handle \<Rightarrow> 'r FileMetadataStore \<Rightarrow> 'r FileMetadataStore" where
  "search_query params h s =
     (let limit = resultsPerPage s;
          offset = js_mul (resultsPerPage s) (js_sub (page params) (Fin 1))
      in call_db (DbSearch h (query params) limit offset) (s\<lparr>loadingSearchResults := True\<rparr>))"

definition search_settled ::
  "error + 'r UpdateSearchResultsAction \<Rightarrow> 'r FileMetadataStore \<Rightarrow> (error + unit) \<times> 'r FileMetadataStore" where
  "search_settled r s =
     (case r of
        Inl e \<Rightarrow> (Inl e, s)
      | Inr found \<Rightarrow>
          (Inr (), updateSearchResults \<lparr>data = data found, total_action = total_action found\<rparr> s))"

definition search ::
  "SearchParams \<Rightarrow> error + 'r UpdateSearchResultsAction \<Rightarrow> 'r FileMetadataStore
     \<Rightarrow> (error + unit) \<times> 'r FileMetadataStore" where
  "search params r s = (case getDb s of (h, s1) \<Rightarrow> search_settled r (search_query params h s1))"

text \<open>\<^verbatim>\<open>getLatest\<close> has the same shape, with \<^verbatim>\<open>db.latest\<close>; it settles as \<^verbatim>\<open>search\<close> does.\<close>

definition getLatest_query :: "GetLatestParams \<Rightarrow> handle \<Rightarrow> 'r FileMetadataStore \<Rightarrow> 'r FileMetadataStore" where
  "getLatest_query params h s =
     (let limit = resultsPerPage s;
          offset = js_mul (resultsPerPage s) (js_sub (page params) (Fin 1))
      in call_db (DbLatest h limit offset) (s\<lparr>loadingSearchResults := True\<rparr>))"

definition getLatest_settled ::
  "error + 'r UpdateSearchResultsAction \<Rightarrow> 'r FileMetadataStore \<Rightarrow> (error + unit) \<times> 'r FileMetadataStore" where
  "getLatest_settled r s =
     (case r of
        Inl e \<Rightarrow> (Inl e, s)
      | Inr found \<Rightarrow>
          (Inr (), updateSearchResults \<lparr>data = data found, total_action = total_action found\<rparr> s))"

definition getLatest ::
  "GetLatestParams \<Rightarrow> error + 'r UpdateSearchResultsAction \<Rightarrow> 'r FileMetadataStore
     \<Rightarrow> (error + unit) \<times> 'r FileMetadataStore" where
  "getLatest params r s =
     (case getDb s of (h, s1) \<Rightarrow> getLatest_settled r (getLatest_query params h s1))"

text \<open>\<^verbatim>\<open>clear\<close>: the handle, \<^verbatim>\<open>db.clearData()\<close>, and \<^verbatim>\<open>clearResults\<close> once that has resolved.\<close>

definition clear_clearData :: "handle \<Rightarrow> 'r FileMetadataStore \<Rightarrow> 'r FileMetadataStore" where
  "clear_clearData h s = call_db (DbClearData h) s"

definition clear_settled ::
  "error + unit \<Rightarrow> 'r FileMetadataStore \<Rightarrow> (error + unit) \<times> 'r FileMetadataStore" where
  "clear_settled r s = (case r of Inl e \<Rightarrow> (Inl e, s) | Inr u \<Rightarrow> (Inr (), clearResults s))"

definition clear :: "error + unit \<Rightarrow> 'r FileMetadataStore \<Rightarrow> (error + unit) \<times> 'r FileMetadataStore" where
  "clear r s = (case getDb s of (h, s1) \<Rightarrow> clear_settled r (clear_clearData h s1))"

subsection \<open>Operations in flight together\<close>

text \<open>
  JavaScript runs one piece of code at a time, and an \<^verbatim>\<open>async\<close> function gives way only at
  an \<^verbatim>\<open>await\<close>. So several operations in flight are an interleaving of the pieces above.
  A task is an operation stopped at an \<^verbatim>\<open>await\<close>, with the local variables it still
  needs.
\<close>

datatype task =
    Init_at_getDb handle
  | Init_at_getSyncState handle
  | Init_at_startSync
  | Search_at_getDb SearchParams handle
  | Search_at_query
  | GetLatest_at_getDb GetLatestParams handle
  | GetLatest_at_query
  | Clear_at_getDb handle
  | Clear_at_clearData

text \<open>What an awaited promise settles with.\<close>

datatype 'r settled =
    Handle_ready
  | SyncState_settled "error + SyncState"
  | Void_settled "error + unit"
  | Results_settled "error + 'r UpdateSearchResultsAction"

text \<open>
  Resuming a task: the tasks that take its place (none when the operation is over) and
  the store. \<open>None\<close> when the task does not wait for a promise of that kind.
\<close>

fun resume ::
  "task \<Rightarrow> 'r settled \<Rightarrow> 'r FileMetadataStore \<Rightarrow> (task list \<times> 'r FileMetadataStore) option" where
  "resume (Init_at_getDb h) Handle_ready s = Some ([Init_at_getSyncState h], initiator_getSyncState h s)"
| "resume (Init_at_getSyncState h) (SyncState_settled (Inr syncState)) s =
     Some ([Init_at_startSync], initiator_startSync h syncState s)"
| "resume (Init_at_getSyncState h) (SyncState_settled (Inl e)) s = Some ([], init_catch e s)"
| "resume Init_at_startSync (Void_settled (Inr u)) s = Some ([], s)"
| "resume Init_at_startSync (Void_settled (Inl e)) s = Some ([], init_catch e s)"
| "resume (Search_at_getDb params h) Handle_ready s = Some ([Search_at_query], search_query params h s)"
| "resume Search_at_query (Results_settled r) s = Some ([], snd (search_settled r s))"
| "resume (GetLatest_at_getDb params h) Handle_ready s =
     Some ([GetLatest_at_query], getLatest_query params h s)"
| "resume GetLatest_at_query (Results_settled r) s = Some ([], snd (getLatest_settled r s))"
| "resume (Clear_at_getDb h) Handle_ready s = Some ([Clear_at_clearData], clear_clearData h s)"
| "resume Clear_at_clearData (Void_settled r) s = Some ([], snd (clear_settled r s))"
| "resume _ _ s = None"

text \<open>
  What can happen next: a call of a public method, the promise of the \<open>i\<close>-th waiting
  task settling, or the database invoking the progress callback, which it can do once
  \<^verbatim>\<open>startSync\<close> has been called.
\<close>

datatype 'r event =
    Call_getDb
  | Call_init
  | Call_search SearchParams
  | Call_getLatest GetLatestParams
  | Call_clear
  | Settle nat "'r settled"
  | Progress "error option" "SyncState option"

fun is_startSync :: "db_call \<Rightarrow> bool" where
  "is_startSync (DbStartSync h) = True"
| "is_startSync _ = False"

text \<open>
  One event. Every public method starts with a call of \<open>getDb\<close>, which runs at once; the
  first component of the result is the handle that call returned. An event that cannot
  happen changes nothing.
\<close>

fun step ::
  "'r event \<Rightarrow> 'r FileMetadataStore \<times> task list
     \<Rightarrow> handle option \<times> ('r FileMetadataStore \<times> task list)" where
  "step Call_getDb (s, ts) = (case getDb s of (h, s1) \<Rightarrow> (Some h, (s1, ts)))"
| "step Call_init (s, ts) = (case getDb s of (h, s1) \<Rightarrow> (Some h, (s1, ts @ [Init_at_getDb h])))"
| "step (Call_search params) (s, ts) =
     (case getDb s of (h, s1) \<Rightarrow> (Some h, (s1, ts @ [Search_at_getDb params h])))"
| "step (Call_getLatest params) (s, ts) =
     (case getDb s of (h, s1) \<Rightarrow> (Some h, (s1, ts @ [GetLatest_at_getDb params h])))"
| "step Call_clear (s, ts) = (case getDb s of (h, s1) \<Rightarrow> (Some h, (s1, ts @ [Clear_at_getDb h])))"
| "step (Settle i r) (s, ts) =
     (if i < length ts then
        (case resume (ts ! i) r s of
           None \<Rightarrow> (None, (s, ts))
         | Some (new, s1) \<Rightarrow> (None, (s1, take i ts @ new @ drop (Suc i) ts)))
      else (None, (s, ts)))"
| "step (Progress err syncState) (s, ts) =
     (if list_ex is_startSync (calls s) then
        (case startSync_callback err syncState s of
           Inl e \<Rightarrow> (None, (s, ts))
         | Inr s1 \<Rightarrow> (None, (s1, ts)))
      else (None, (s, ts)))"

text \<open>A sequence of events: the handles the calls of \<open>getDb\<close> returned, in order, and the end.\<close>

fun exec ::
  "'r event list \<Rightarrow> 'r FileMetadataStore \<times> task list
     \<Rightarrow> handle list \<times> ('r FileMetadataStore \<times> task list)" where
  "exec [] sys = ([], sys)"
| "exec (ev # evs) sys =
     (case step ev sys of (ho, sys1) \<Rightarrow>
        (case exec evs sys1 of (hs, sys2) \<Rightarrow>
           ((case ho of None \<Rightarrow> hs | Some h \<Rightarrow> h # hs), sys2)))"

text \<open>
  The events in which the database reports a count other than \<^verbatim>\<open>Infinity\<close>: the sync
  state \<^verbatim>\<open>getSyncState\<close> resolves with and the one handed to the progress callback. Every
  other event reports no count.
\<close>

fun reports_count :: "'r event \<Rightarrow> bool" where
  "reports_count (Settle i (SyncState_settled (Inr syncState))) = (numSynced syncState \<noteq> Infinity)"
| "reports_count (Progress err (Some syncState)) = (numSynced syncState \<noteq> Infinity)"
| "reports_count _ = True"

text \<open>
  The state of the cached handle: either none was built and the field is unset, or
  exactly one was built and the field holds it.
\<close>

definition handle_inv :: "'r FileMetadataStore \<Rightarrow> bool" where
  "handle_inv s \<longleftrightarrow>
     (db s = None \<and> constructed s = 0) \<or> (db s = Some 0 \<and> constructed s = Suc 0)"

section \<open>Properties\<close>

subsection \<open>Arithmetic on exact integers\<close>

lemma to_binary64_exact: "exact_int x \<Longrightarrow> to_binary64 x = Fin x"
  by (simp add: exact_int_def to_binary64_def)

lemma to_binary64_zero: "to_binary64 0 = Fin 0"
  by (simp add: to_binary64_def)

subsection \<open>The predicate\<close>

text \<open>
  \<open>inodesSynced\<close> is written in three places: the initialiser and \<open>clearResults\<close> store 0,
  and \<open>updateSyncProgress\<close> stores the count the database reported. So as long as the
  database reports no count of \<open>Infinity\<close>, no state the store reaches has
  \<open>inodesSynced\<close> at \<open>Infinity\<close>.
\<close>

lemma resume_count:
  "resume t r s = Some (new, s1) \<Longrightarrow> reports_count (Settle i r) \<Longrightarrow> inodesSynced s \<noteq> Infinity
     \<Longrightarrow> inodesSynced s1 \<noteq> Infinity"
  by (induction t r s rule: resume.induct)
     (auto simp: initiator_getSyncState_def initiator_startSync_def init_catch_def call_db_def
        updateSyncProgress_def updateSearchResults_def clearResults_def
        search_query_def getLatest_query_def search_settled_def getLatest_settled_def
        clear_clearData_def clear_settled_def Let_def split: sum.splits)

lemma getDb_count: "inodesSynced (snd (getDb s)) = inodesSynced s"
  by (simp add: getDb_def split: option.split)

lemma step_count:
  assumes "inodesSynced s \<noteq> Infinity" and "reports_count ev" and "step ev (s, ts) = (ho, (s1, ts1))"
  shows "inodesSynced s1 \<noteq> Infinity"
proof (cases ev)
  case (Settle i r)
  then show ?thesis
    using assms resume_count [of "ts ! i" r s _ s1 i]
    by (auto split: if_splits option.splits)
next
  case (Progress err st)
  then show ?thesis
    using assms
    by (cases st) (auto simp: startSync_callback_def updateSyncProgress_def split: if_splits)
qed (use assms getDb_count [of s] in \<open>auto split: prod.splits\<close>)

lemma exec_count:
  "inodesSynced s \<noteq> Infinity \<Longrightarrow> list_all reports_count evs \<Longrightarrow> exec evs (s, ts) = (hs, (s2, ts2))
     \<Longrightarrow> inodesSynced s2 \<noteq> Infinity"
proof (induction evs arbitrary: s ts hs)
  case Nil
  then show ?case by simp
next
  case (Cons ev evs)
  obtain ho s1 ts1 where st: "step ev (s, ts) = (ho, (s1, ts1))"
    by (metis prod.exhaust)
  obtain hs1 where ex: "exec evs (s1, ts1) = (hs1, (s2, ts2))"
    using Cons.prems(3) st by (auto split: prod.splits)
  have "inodesSynced s1 \<noteq> Infinity"
    using step_count [OF Cons.prems(1) _ st] Cons.prems(2) by simp
  then show ?case
    using Cons.IH [OF _ _ ex] Cons.prems(2) by simp
qed

lemma reached_count:
  "list_all reports_count evs \<Longrightarrow> inodesSynced (fst (snd (exec evs (new_store rpp, [])))) \<noteq> Infinity"
proof -
  assume evs: "list_all reports_count evs"
  obtain hs s2 ts2 where ex: "exec evs (new_store rpp, []) = (hs, (s2 :: 'a FileMetadataStore, ts2))"
    by (metis prod.exhaust)
  have "inodesSynced (new_store rpp :: 'a FileMetadataStore) \<noteq> Infinity"
    by (simp add: new_store_def)
  from exec_count [OF this evs ex] show ?thesis
    using ex by simp
qed

text \<open>
  C1: in every state whose \<open>inodesSynced\<close> is not \<open>Infinity\<close> (by \<open>reached_count\<close>, every
  state the store reaches while the database reports its counts), \<open>isDbSynced\<close> is true
  if and only if \<open>inodesSynced\<close> is strictly equal to \<open>totalInodesToSync\<close> and
  \<open>totalInodesToSync\<close> is not the sentinel \<open>Infinity\<close>. Strictly equal means the two are
  the same number and that number is not \<open>NaN\<close>. In particular the predicate is false
  while \<open>totalInodesToSync\<close> is \<open>Infinity\<close>.
\<close>

theorem isDbSynced_iff:
  assumes "inodesSynced s \<noteq> Infinity"
  shows "(isDbSynced s \<longleftrightarrow>
            strict_eq (inodesSynced s) (totalInodesToSync s) \<and> totalInodesToSync s \<noteq> Infinity)
       \<and> (isDbSynced s \<longleftrightarrow>
            inodesSynced s = totalInodesToSync s \<and> inodesSynced s \<noteq> NaN
            \<and> totalInodesToSync s \<noteq> Infinity)
       \<and> (totalInodesToSync s = Infinity \<longrightarrow> \<not> isDbSynced s)"
  using assms
  by (cases "inodesSynced s"; cases "totalInodesToSync s") (simp_all add: isDbSynced_def)

theorem isDbSynced_iff_witness:
  "inodesSynced (new_store (Fin 20) :: nat FileMetadataStore) \<noteq> Infinity
   \<and> totalInodesToSync (new_store (Fin 20) :: nat FileMetadataStore) = Infinity
   \<and> \<not> isDbSynced (new_store (Fin 20) :: nat FileMetadataStore)
   \<and> inodesSynced (fst (snd (exec
        [Call_init, Settle 0 Handle_ready,
         Settle 0 (SyncState_settled (Inr \<lparr>numSynced = Fin 5, total_state = Fin 100\<rparr>)),
         Progress None (Some \<lparr>numSynced = Fin 100, total_state = Fin 100\<rparr>)]
        (new_store (Fin 20) :: nat FileMetadataStore, [])))) = Fin 100
   \<and> isDbSynced (fst (snd (exec
        [Call_init, Settle 0 Handle_ready,
         Settle 0 (SyncState_settled (Inr \<lparr>numSynced = Fin 5, total_state = Fin 100\<rparr>)),
         Progress None (Some \<lparr>numSynced = Fin 100, total_state = Fin 100\<rparr>)]
        (new_store (Fin 20) :: nat FileMetadataStore, []))))"
  using isDbSynced_iff [of "new_store (Fin 20) :: nat FileMetadataStore"]
    isDbSynced_iff [of "fst (snd (exec
        [Call_init, Settle 0 Handle_ready,
         Settle 0 (SyncState_settled (Inr \<lparr>numSynced = Fin 5, total_state = Fin 100\<rparr>)),
         Progress None (Some \<lparr>numSynced = Fin 100, total_state = Fin 100\<rparr>)]
        (new_store (Fin 20) :: nat FileMetadataStore, [])))"]
  by (simp add: new_store_def getDb_def initiator_getSyncState_def initiator_startSync_def
      call_db_def updateSyncProgress_def startSync_callback_def)

text \<open>
  The hypothesis is needed: \<^verbatim>\<open>Infinity === Infinity\<close> is true, so a database that reported
  a count of \<open>Infinity\<close> out of \<open>Infinity\<close> would make the predicate true with the
  sentinel in place.
\<close>

lemma isDbSynced_infinite_count:
  "isDbSynced (updateSyncProgress \<lparr>inodesSynced_action = Infinity, totalInodes = Infinity\<rparr>
                 (new_store (Fin 20) :: nat FileMetadataStore))"
  by (simp add: isDbSynced_def updateSyncProgress_def new_store_def)

subsection \<open>What \<open>getDb\<close> leaves alone\<close>

lemma getDb_fields:
  "searchResults (snd (getDb s)) = searchResults s"
  "loadingSearchResults (snd (getDb s)) = loadingSearchResults s"
  "total_store (snd (getDb s)) = total_store s"
  "resultsPerPage (snd (getDb s)) = resultsPerPage s"
  "inodesSynced (snd (getDb s)) = inodesSynced s"
  "totalInodesToSync (snd (getDb s)) = totalInodesToSync s"
  "syncError (snd (getDb s)) = syncError s"
  "calls (snd (getDb s)) = calls s"
  by (simp_all add: getDb_def split: option.split)

subsection \<open>Pages below one\<close>

text \<open>
  C2 as stated fails: on a new store with 20 results per page, \<open>search\<close> with page 0
  calls \<^verbatim>\<open>db.search\<close> with offset \<open>-20\<close>, and resolves when that call resolves.
\<close>

theorem search_page_below_one_counterexample:
  "fst (search \<lparr>page = Fin 0, query = ''x''\<rparr> (Inr \<lparr>data = [], total_action = Fin 0\<rparr>)
          (new_store (Fin 20) :: nat FileMetadataStore)) = Inr ()
   \<and> calls (snd (search \<lparr>page = Fin 0, query = ''x''\<rparr> (Inr \<lparr>data = [], total_action = Fin 0\<rparr>)
          (new_store (Fin 20) :: nat FileMetadataStore))) = [DbSearch 0 ''x'' (Fin 20) (Fin (- 20))]"
  by (simp add: search_def search_settled_def search_query_def getDb_def new_store_def call_db_def
      updateSearchResults_def to_binary64_def)

text \<open>
  With a positive page size and a page below 1, an offset in the exact range means that
  the page size, the page and the page less one are in it too.
\<close>

lemma below_one_exact:
  assumes "0 < r" and "p < 1" and "exact_int (r * (p - 1))"
  shows "exact_int (p - 1)" and "exact_int p" and "exact_int r"
proof -
  have r1: "1 \<le> r" and q1: "1 \<le> 1 - p"
    using assms(1,2) by simp_all
  have abs: "\<bar>r * (p - 1)\<bar> = r * (1 - p)"
    using assms(1,2) by (simp add: abs_mult)
  have "1 * (1 - p) \<le> r * (1 - p)"
    using r1 q1 by (intro mult_right_mono) simp_all
  then have a: "1 - p \<le> r * (1 - p)" by simp
  have "r * 1 \<le> r * (1 - p)"
    using r1 q1 by (intro mult_left_mono) simp_all
  then have b: "r \<le> r * (1 - p)" by simp
  have bound: "r * (1 - p) \<le> 2 ^ 53"
    using assms(3) abs by (simp add: exact_int_def)
  have ap: "1 - p \<le> 2 ^ 53"
    using a bound by (rule order_trans)
  have ar: "r \<le> 2 ^ 53"
    using b bound by (rule order_trans)
  show "exact_int (p - 1)"
    unfolding exact_int_def using ap assms(2) by linarith
  show "exact_int p"
    unfolding exact_int_def using ap assms(2) by linarith
  show "exact_int r"
    unfolding exact_int_def using ar assms(1) by linarith
qed

text \<open>
  C2, as the code has it: \<open>search\<close> and \<open>getLatest\<close> do not look at the page. With a
  positive number of results per page and a page below 1, the offset
  \<open>resultsPerPage * (page - 1)\<close> being an integer of absolute value at most \<open>2^53\<close>, they
  call the database with the limit \<open>resultsPerPage\<close> and that negative offset, and they
  reject exactly when that call rejects, with its error.
\<close>

theorem search_getLatest_no_page_check:
  assumes "resultsPerPage s = Fin r" and "0 < r" and "p < 1" and "exact_int (r * (p - 1))"
  shows "calls (snd (search \<lparr>page = Fin p, query = q\<rparr> res s))
           = calls s @ [DbSearch (fst (getDb s)) q (Fin r) (Fin (r * (p - 1)))]
       \<and> calls (snd (getLatest \<lparr>page = Fin p\<rparr> res s))
           = calls s @ [DbLatest (fst (getDb s)) (Fin r) (Fin (r * (p - 1)))]
       \<and> r * (p - 1) < 0
       \<and> fst (search \<lparr>page = Fin p, query = q\<rparr> res s) = (case res of Inl e \<Rightarrow> Inl e | Inr found \<Rightarrow> Inr ())
       \<and> fst (getLatest \<lparr>page = Fin p\<rparr> res s) = (case res of Inl e \<Rightarrow> Inl e | Inr found \<Rightarrow> Inr ())"
proof -
  have neg: "r * (p - 1) < 0"
    using assms(2,3) by (simp add: mult_pos_neg)
  have off: "js_mul (Fin r) (js_sub (Fin p) (Fin 1)) = Fin (r * (p - 1))"
    using below_one_exact(1) [OF assms(2,3,4)] assms(4) by (simp add: to_binary64_exact)
  obtain h s1 where g: "getDb s = (h, s1)" by (cases "getDb s")
  have rpp: "resultsPerPage s1 = Fin r" and cs: "calls s1 = calls s"
    using getDb_fields(4,8) [of s] g assms(1) by simp_all
  show ?thesis
    using neg rpp cs g off
    by (cases res)
       (simp_all add: search_def getLatest_def search_settled_def getLatest_settled_def
          search_query_def getLatest_query_def call_db_def updateSearchResults_def)
qed

theorem search_getLatest_no_page_check_witness:
  "exact_int (20 * (- 2 - 1))
   \<and> calls (snd (search \<lparr>page = Fin (- 2), query = ''x''\<rparr> (Inl (Error ''refused''))
                 (new_store (Fin 20) :: nat FileMetadataStore)))
     = [DbSearch 0 ''x'' (Fin 20) (Fin (- 60))]
   \<and> calls (snd (getLatest \<lparr>page = Fin (- 2)\<rparr> (Inl (Error ''refused''))
                 (new_store (Fin 20) :: nat FileMetadataStore)))
     = [DbLatest 0 (Fin 20) (Fin (- 60))]
   \<and> fst (search \<lparr>page = Fin (- 2), query = ''x''\<rparr> (Inl (Error ''refused''))
                 (new_store (Fin 20) :: nat FileMetadataStore)) = Inl (Error ''refused'')"
  using search_getLatest_no_page_check
    [of "new_store (Fin 20) :: nat FileMetadataStore" 20 "- 2" "''x''" "Inl (Error ''refused'')"]
  by (simp add: new_store_def getDb_def exact_int_def)

subsection \<open>Failures while syncing\<close>

text \<open>
  C3: when \<^verbatim>\<open>db.getSyncState()\<close> rejects during \<open>init\<close>, whatever the error,
  \<open>syncError\<close> becomes the error with the fixed message \<open>Incorrect network!\<close>, and
  \<open>inodesSynced\<close> and \<open>totalInodesToSync\<close> keep the values they had before the call.
\<close>

theorem init_getSyncState_rejects:
  "syncError (init (Inl e) startedSync s) = Some (Error ''Incorrect network!'')
   \<and> inodesSynced (init (Inl e) startedSync s) = inodesSynced s
   \<and> totalInodesToSync (init (Inl e) startedSync s) = totalInodesToSync s"
proof -
  obtain h s1 where g: "getDb s = (h, s1)" by (cases "getDb s")
  have "inodesSynced s1 = inodesSynced s" and "totalInodesToSync s1 = totalInodesToSync s"
    using getDb_fields(5,6) [of s] g by simp_all
  then show ?thesis
    using g by (simp add: init_def initiator_def init_catch_def initiator_getSyncState_def call_db_def)
qed

theorem init_getSyncState_rejects_witness:
  "syncError (init (Inl (Error ''offline'')) (Inr ()) (new_store (Fin 20) :: nat FileMetadataStore))
     = Some (Error ''Incorrect network!'')
   \<and> inodesSynced (init (Inl (Error ''offline'')) (Inr ()) (new_store (Fin 20) :: nat FileMetadataStore))
     = Fin 0
   \<and> totalInodesToSync (init (Inl (Error ''offline'')) (Inr ()) (new_store (Fin 20) :: nat FileMetadataStore))
     = Infinity"
  using init_getSyncState_rejects
    [of "Error ''offline''" "Inr ()" "new_store (Fin 20) :: nat FileMetadataStore"]
  by (simp add: new_store_def)

text \<open>
  C4 as stated fails: the progress callback, invoked on a new store with an error and
  the state 5 of 100, publishes the state and leaves \<open>syncError\<close> unset.
\<close>

theorem startSync_callback_error_counterexample:
  "startSync_callback (Some (Error ''timeout'')) (Some \<lparr>numSynced = Fin 5, total_state = Fin 100\<rparr>)
     (new_store (Fin 20) :: nat FileMetadataStore)
   = Inr (updateSyncProgress \<lparr>inodesSynced_action = Fin 5, totalInodes = Fin 100\<rparr> (new_store (Fin 20)))
   \<and> syncError (updateSyncProgress \<lparr>inodesSynced_action = Fin 5, totalInodes = Fin 100\<rparr>
        (new_store (Fin 20) :: nat FileMetadataStore)) = None"
  by (simp add: startSync_callback_def updateSyncProgress_def new_store_def)

text \<open>
  C4, as the code has it: an error handed to the progress callback is logged and not
  stored. With a sync state beside it the callback publishes that state and \<open>syncError\<close>
  is what it was; with no sync state the callback throws \<open>Result must exist\<close> to its
  caller and writes nothing.
\<close>

theorem startSync_callback_error_logged_only:
  "startSync_callback (Some e) None s = Inl (Error ''Result must exist'')
   \<and> startSync_callback (Some e) (Some st) s
       = Inr (updateSyncProgress \<lparr>inodesSynced_action = numSynced st, totalInodes = total_state st\<rparr> s)
   \<and> syncError (updateSyncProgress \<lparr>inodesSynced_action = numSynced st, totalInodes = total_state st\<rparr> s)
       = syncError s"
  by (simp add: startSync_callback_def updateSyncProgress_def)

theorem startSync_callback_error_logged_only_witness:
  "startSync_callback (Some (Error ''timeout'')) None (new_store (Fin 20) :: nat FileMetadataStore)
     = Inl (Error ''Result must exist'')
   \<and> syncError (updateSyncProgress \<lparr>inodesSynced_action = Fin 5, totalInodes = Fin 100\<rparr>
        (new_store (Fin 20) :: nat FileMetadataStore)) = None"
  using startSync_callback_error_logged_only
    [of "Error ''timeout''" "new_store (Fin 20) :: nat FileMetadataStore"
        "\<lparr>numSynced = Fin 5, total_state = Fin 100\<rparr>"]
  by (simp add: new_store_def)

subsection \<open>Queries\<close>

text \<open>
  C5: with \<open>resultsPerPage\<close> the integer \<open>r\<close> and a page \<open>p\<close> of at least 1, both of
  absolute value at most \<open>2^53\<close> and so is \<open>r * (p - 1)\<close>, \<open>search\<close> calls \<^verbatim>\<open>db.search\<close>
  on the handle with the query, the limit \<open>resultsPerPage\<close> and the offset
  \<open>r * (p - 1)\<close>, which is 0 for page 1; and when that call resolves with a result the
  store holds its data in \<open>searchResults\<close>, its total in \<open>total\<close>, and
  \<open>loadingSearchResults\<close> is false.
\<close>

theorem search_offset_and_publish:
  assumes "resultsPerPage s = Fin r" and "1 \<le> p"
    and "exact_int r" and "exact_int p" and "exact_int (r * (p - 1))"
  shows "calls (snd (search \<lparr>page = Fin p, query = q\<rparr> (Inr found) s))
           = calls s @ [DbSearch (fst (getDb s)) q (resultsPerPage s) (Fin (r * (p - 1)))]
       \<and> (p = 1 \<longrightarrow> calls (snd (search \<lparr>page = Fin p, query = q\<rparr> (Inr found) s))
           = calls s @ [DbSearch (fst (getDb s)) q (resultsPerPage s) (Fin 0)])
       \<and> fst (search \<lparr>page = Fin p, query = q\<rparr> (Inr found) s) = Inr ()
       \<and> searchResults (snd (search \<lparr>page = Fin p, query = q\<rparr> (Inr found) s)) = data found
       \<and> total_store (snd (search \<lparr>page = Fin p, query = q\<rparr> (Inr found) s)) = total_action found
       \<and> loadingSearchResults (snd (search \<lparr>page = Fin p, query = q\<rparr> (Inr found) s)) = False"
proof -
  have "exact_int (p - 1)"
    using assms(2,4) by (simp add: exact_int_def)
  then have off: "js_mul (Fin r) (js_sub (Fin p) (Fin 1)) = Fin (r * (p - 1))"
    using assms(5) by (simp add: to_binary64_exact)
  obtain h s1 where g: "getDb s = (h, s1)" by (cases "getDb s")
  have rpp: "resultsPerPage s1 = Fin r" and cs: "calls s1 = calls s"
    using getDb_fields(4,8) [of s] g assms(1) by simp_all
  show ?thesis
    using rpp cs g assms(1) off
    by (simp add: search_def search_settled_def search_query_def call_db_def updateSearchResults_def
        to_binary64_zero)
qed

theorem search_offset_and_publish_witness:
  "exact_int 20 \<and> exact_int 3 \<and> exact_int (20 * (3 - 1))
   \<and> calls (snd (search \<lparr>page = Fin 3, query = ''report''\<rparr> (Inr \<lparr>data = [1, 2, 3 :: nat], total_action = Fin 57\<rparr>)
                 (new_store (Fin 20))))
     = [DbSearch 0 ''report'' (Fin 20) (Fin 40)]
   \<and> searchResults (snd (search \<lparr>page = Fin 3, query = ''report''\<rparr>
        (Inr \<lparr>data = [1, 2, 3 :: nat], total_action = Fin 57\<rparr>) (new_store (Fin 20)))) = [1, 2, 3]
   \<and> total_store (snd (search \<lparr>page = Fin 3, query = ''report''\<rparr>
        (Inr \<lparr>data = [1, 2, 3 :: nat], total_action = Fin 57\<rparr>) (new_store (Fin 20)))) = Fin 57
   \<and> loadingSearchResults (snd (search \<lparr>page = Fin 3, query = ''report''\<rparr>
        (Inr \<lparr>data = [1, 2, 3 :: nat], total_action = Fin 57\<rparr>) (new_store (Fin 20)))) = False"
  using search_offset_and_publish
    [of "new_store (Fin 20) :: nat FileMetadataStore" 20 3 "''report''"
        "\<lparr>data = [1, 2, 3 :: nat], total_action = Fin 57\<rparr>"]
  by (simp add: new_store_def getDb_def exact_int_def)

text \<open>
  C6 does not hold of the code: when \<^verbatim>\<open>db.search\<close> or \<^verbatim>\<open>db.latest\<close> rejects, the
  operation rejects with the same error and \<open>loadingSearchResults\<close>, set to true before
  the call, is still true.
\<close>

theorem query_rejected_loading_stays_true:
  "loadingSearchResults (snd (search params (Inl e) s)) = True
   \<and> fst (search params (Inl e) s) = Inl e
   \<and> loadingSearchResults (snd (getLatest params' (Inl e) s)) = True
   \<and> fst (getLatest params' (Inl e) s) = Inl e"
  by (cases "getDb s")
     (simp add: search_def getLatest_def search_settled_def getLatest_settled_def
        search_query_def getLatest_query_def call_db_def)

text \<open>
  C10: \<open>search\<close> and \<open>getLatest\<close> publish into the same three fields. After a search
  that resolved, a \<open>getLatest\<close> that resolves leaves its own data and total in
  \<open>searchResults\<close> and \<open>total\<close> and the loading flag false; and the same with the two
  exchanged.
\<close>

theorem search_getLatest_share_fields:
  "searchResults (snd (getLatest params2 (Inr r2) (snd (search params1 (Inr r1) s)))) = data r2
   \<and> total_store (snd (getLatest params2 (Inr r2) (snd (search params1 (Inr r1) s)))) = total_action r2
   \<and> loadingSearchResults (snd (getLatest params2 (Inr r2) (snd (search params1 (Inr r1) s)))) = False
   \<and> searchResults (snd (search params1 (Inr r1) (snd (getLatest params2 (Inr r2) s)))) = data r1
   \<and> total_store (snd (search params1 (Inr r1) (snd (getLatest params2 (Inr r2) s)))) = total_action r1
   \<and> loadingSearchResults (snd (search params1 (Inr r1) (snd (getLatest params2 (Inr r2) s)))) = False"
proof -
  have a: "searchResults (snd (search p (Inr r) t)) = data r
         \<and> total_store (snd (search p (Inr r) t)) = total_action r
         \<and> loadingSearchResults (snd (search p (Inr r) t)) = False"
    for p r and t :: "'a FileMetadataStore"
    by (cases "getDb t") (simp add: search_def search_settled_def updateSearchResults_def)
  have b: "searchResults (snd (getLatest p (Inr r) t)) = data r
         \<and> total_store (snd (getLatest p (Inr r) t)) = total_action r
         \<and> loadingSearchResults (snd (getLatest p (Inr r) t)) = False"
    for p r and t :: "'a FileMetadataStore"
    by (cases "getDb t") (simp add: getLatest_def getLatest_settled_def updateSearchResults_def)
  show ?thesis using a b by simp
qed

theorem search_getLatest_share_fields_witness:
  "searchResults (snd (getLatest \<lparr>page = Fin 1\<rparr> (Inr \<lparr>data = [7, 8 :: nat], total_action = Fin 2\<rparr>)
     (snd (search \<lparr>page = Fin 3, query = ''report''\<rparr> (Inr \<lparr>data = [1, 2, 3], total_action = Fin 57\<rparr>)
        (new_store (Fin 20))))))
     = [7, 8]
   \<and> total_store (snd (getLatest \<lparr>page = Fin 1\<rparr> (Inr \<lparr>data = [7, 8 :: nat], total_action = Fin 2\<rparr>)
     (snd (search \<lparr>page = Fin 3, query = ''report''\<rparr> (Inr \<lparr>data = [1, 2, 3], total_action = Fin 57\<rparr>)
        (new_store (Fin 20))))))
     = Fin 2"
  using search_getLatest_share_fields
    [of "\<lparr>page = Fin 1\<rparr>" "\<lparr>data = [7, 8 :: nat], total_action = Fin 2\<rparr>"
        "\<lparr>page = Fin 3, query = ''report''\<rparr>" "\<lparr>data = [1, 2, 3], total_action = Fin 57\<rparr>"
        "new_store (Fin 20)"]
  by simp

subsection \<open>Clearing\<close>

text \<open>
  C7 as stated fails: after a search on a new store that published the total 57, a
  \<open>clear\<close> that resolves leaves \<open>total\<close> at 57.
\<close>

theorem clear_total_counterexample:
  "total_store (snd (clear (Inr ())
      (snd (search \<lparr>page = Fin 3, query = ''report''\<rparr> (Inr \<lparr>data = [1, 2, 3 :: nat], total_action = Fin 57\<rparr>)
              (new_store (Fin 20)))))) = Fin 57
   \<and> fst (clear (Inr ())
      (snd (search \<lparr>page = Fin 3, query = ''report''\<rparr> (Inr \<lparr>data = [1, 2, 3 :: nat], total_action = Fin 57\<rparr>)
              (new_store (Fin 20))))) = Inr ()"
  by (simp add: clear_def clear_settled_def clear_clearData_def clearResults_def search_def
      search_settled_def search_query_def getDb_def new_store_def call_db_def updateSearchResults_def)

text \<open>
  C7, as the code has it: after a \<open>clear\<close> that resolves, \<open>searchResults\<close> is empty,
  \<open>inodesSynced\<close> is 0, \<open>totalInodesToSync\<close> is \<open>Infinity\<close>, and \<open>total\<close> is what it was
  before the call.
\<close>

theorem clear_resolved:
  "fst (clear (Inr ()) s) = Inr ()
   \<and> searchResults (snd (clear (Inr ()) s)) = []
   \<and> inodesSynced (snd (clear (Inr ()) s)) = Fin 0
   \<and> totalInodesToSync (snd (clear (Inr ()) s)) = Infinity
   \<and> total_store (snd (clear (Inr ()) s)) = total_store s"
proof -
  obtain h s1 where g: "getDb s = (h, s1)" by (cases "getDb s")
  have "total_store s1 = total_store s"
    using getDb_fields(3) [of s] g by simp
  then show ?thesis
    using g by (simp add: clear_def clear_settled_def clear_clearData_def clearResults_def call_db_def)
qed

theorem clear_resolved_witness:
  "searchResults (snd (clear (Inr ()) (new_store (Fin 20) :: nat FileMetadataStore))) = []
   \<and> inodesSynced (snd (clear (Inr ()) (new_store (Fin 20) :: nat FileMetadataStore))) = Fin 0
   \<and> totalInodesToSync (snd (clear (Inr ()) (new_store (Fin 20) :: nat FileMetadataStore))) = Infinity
   \<and> total_store (snd (clear (Inr ()) (new_store (Fin 20) :: nat FileMetadataStore))) = Fin 0"
  using clear_resolved [of "new_store (Fin 20) :: nat FileMetadataStore"]
  by (simp add: new_store_def)

subsection \<open>Progress beyond the total\<close>

text \<open>
  C8 as stated fails: the progress callback, invoked on a new store with no error and
  the state 7 of 5, publishes 7 and 5 and leaves \<open>syncError\<close> unset.
\<close>

theorem progress_beyond_total_counterexample:
  "startSync_callback None (Some \<lparr>numSynced = Fin 7, total_state = Fin 5\<rparr>)
     (new_store (Fin 20) :: nat FileMetadataStore)
   = Inr (updateSyncProgress \<lparr>inodesSynced_action = Fin 7, totalInodes = Fin 5\<rparr> (new_store (Fin 20)))
   \<and> js_less (totalInodesToSync (updateSyncProgress \<lparr>inodesSynced_action = Fin 7, totalInodes = Fin 5\<rparr>
        (new_store (Fin 20) :: nat FileMetadataStore)))
       (inodesSynced (updateSyncProgress \<lparr>inodesSynced_action = Fin 7, totalInodes = Fin 5\<rparr>
        (new_store (Fin 20) :: nat FileMetadataStore)))
   \<and> syncError (updateSyncProgress \<lparr>inodesSynced_action = Fin 7, totalInodes = Fin 5\<rparr>
        (new_store (Fin 20) :: nat FileMetadataStore)) = None"
  by (simp add: startSync_callback_def updateSyncProgress_def new_store_def)

text \<open>
  C8, as the code has it: a progress update whose count is above its total is published
  as it came. The callback returns, \<open>inodesSynced\<close> and \<open>totalInodesToSync\<close> are the two
  values received, the first above the second, and \<open>syncError\<close> is what it was.
\<close>

theorem progress_beyond_total_published:
  assumes "js_less (total_state st) (numSynced st)"
  shows "startSync_callback err (Some st) s
           = Inr (updateSyncProgress \<lparr>inodesSynced_action = numSynced st, totalInodes = total_state st\<rparr> s)
       \<and> inodesSynced (updateSyncProgress \<lparr>inodesSynced_action = numSynced st, totalInodes = total_state st\<rparr> s)
           = numSynced st
       \<and> totalInodesToSync (updateSyncProgress \<lparr>inodesSynced_action = numSynced st, totalInodes = total_state st\<rparr> s)
           = total_state st
       \<and> js_less
           (totalInodesToSync (updateSyncProgress \<lparr>inodesSynced_action = numSynced st, totalInodes = total_state st\<rparr> s))
           (inodesSynced (updateSyncProgress \<lparr>inodesSynced_action = numSynced st, totalInodes = total_state st\<rparr> s))
       \<and> syncError (updateSyncProgress \<lparr>inodesSynced_action = numSynced st, totalInodes = total_state st\<rparr> s)
           = syncError s"
  using assms by (simp add: startSync_callback_def updateSyncProgress_def)

theorem progress_beyond_total_published_witness:
  "js_less (Fin 5) (Fin 7)
   \<and> inodesSynced (updateSyncProgress \<lparr>inodesSynced_action = Fin 7, totalInodes = Fin 5\<rparr>
        (new_store (Fin 20) :: nat FileMetadataStore)) = Fin 7
   \<and> totalInodesToSync (updateSyncProgress \<lparr>inodesSynced_action = Fin 7, totalInodes = Fin 5\<rparr>
        (new_store (Fin 20) :: nat FileMetadataStore)) = Fin 5
   \<and> syncError (updateSyncProgress \<lparr>inodesSynced_action = Fin 7, totalInodes = Fin 5\<rparr>
        (new_store (Fin 20) :: nat FileMetadataStore)) = None"
  using progress_beyond_total_published
    [of "\<lparr>numSynced = Fin 7, total_state = Fin 5\<rparr>" None "new_store (Fin 20) :: nat FileMetadataStore"]
  by (simp add: new_store_def)

subsection \<open>One handle\<close>

lemma getDb_handle_inv:
  "handle_inv s \<Longrightarrow> fst (getDb s) = 0 \<and> handle_inv (snd (getDb s)) \<and> constructed (snd (getDb s)) = Suc 0"
  by (auto simp: handle_inv_def getDb_def)

lemma getDb_again: "getDb (snd (getDb s)) = (fst (getDb s), snd (getDb s))"
  by (simp add: getDb_def split: option.split)

lemma pieces_handle_inv:
  "handle_inv (call_db c s) = handle_inv s"
  "handle_inv (updateSyncProgress a s) = handle_inv s"
  "handle_inv (updateSearchResults b s) = handle_inv s"
  "handle_inv (clearResults s) = handle_inv s"
  "handle_inv (init_catch e s) = handle_inv s"
  "handle_inv (s\<lparr>loadingSearchResults := v\<rparr>) = handle_inv s"
  by (simp_all add: handle_inv_def call_db_def updateSyncProgress_def updateSearchResults_def
      clearResults_def init_catch_def)

lemma resume_handle_inv:
  "resume t r s = Some (new, s1) \<Longrightarrow> handle_inv s1 = handle_inv s"
  by (induction t r s rule: resume.induct)
     (auto simp: pieces_handle_inv initiator_getSyncState_def initiator_startSync_def
        search_query_def getLatest_query_def search_settled_def getLatest_settled_def
        clear_clearData_def clear_settled_def Let_def split: sum.splits)

lemma step_handle_inv:
  assumes "handle_inv s" and "step ev (s, ts) = (ho, (s1, ts1))"
  shows "handle_inv s1 \<and> (ho = None \<or> ho = Some 0)"
proof (cases ev)
  case (Settle i r)
  then show ?thesis
    using assms by (auto split: if_splits option.splits dest: resume_handle_inv)
next
  case (Progress err st)
  then show ?thesis
    using assms
    by (auto simp: startSync_callback_def pieces_handle_inv split: if_splits option.splits sum.splits)
qed (use assms getDb_handle_inv [of s] in \<open>auto split: prod.splits\<close>)

lemma exec_handle_inv:
  "handle_inv s \<Longrightarrow> exec evs (s, ts) = (hs, (s2, ts2))
     \<Longrightarrow> handle_inv s2 \<and> hs = replicate (length hs) 0"
proof (induction evs arbitrary: s ts hs)
  case Nil
  then show ?case by simp
next
  case (Cons ev evs)
  obtain ho s1 ts1 where st: "step ev (s, ts) = (ho, (s1, ts1))"
    by (metis prod.exhaust)
  obtain hs1 where ex: "exec evs (s1, ts1) = (hs1, (s2, ts2))"
    using Cons.prems(2) st by (auto split: prod.splits)
  have s1: "handle_inv s1" and ho: "ho = None \<or> ho = Some 0"
    using step_handle_inv [OF Cons.prems(1) st] by simp_all
  have ih: "handle_inv s2" "hs1 = replicate (length hs1) 0"
    using Cons.IH [OF s1 ex] by simp_all
  have "hs = (case ho of None \<Rightarrow> hs1 | Some h \<Rightarrow> h # hs1)"
    using Cons.prems(2) st ex by simp
  with ho ih show ?case by auto
qed

lemma new_store_handle_inv: "handle_inv (new_store rpp)"
  by (simp add: handle_inv_def new_store_def)

text \<open>
  C9: after any sequence of events on a new store (calls of \<open>getDb\<close>, \<open>init\<close>, \<open>search\<close>,
  \<open>getLatest\<close> and \<open>clear\<close>, their continuations in any order, progress callbacks), every
  call of \<open>getDb\<close> has returned handle 0, the first one built, and at most one
  \<^verbatim>\<open>FileMetadataDatabase\<close> has been constructed. And in any state at all, a second call of
  \<open>getDb\<close> returns what the first returned and changes nothing.
\<close>

theorem getDb_single_handle:
  "fst (exec evs (new_store rpp, [])) = replicate (length (fst (exec evs (new_store rpp, [])))) 0
   \<and> constructed (fst (snd (exec evs (new_store rpp, [])))) \<le> 1
   \<and> getDb (snd (getDb s)) = (fst (getDb s), snd (getDb s))"
proof -
  obtain hs s2 ts2 where ex: "exec evs (new_store rpp, []) = (hs, (s2 :: 'a FileMetadataStore, ts2))"
    by (metis prod.exhaust)
  have "handle_inv s2" and "hs = replicate (length hs) 0"
    using exec_handle_inv [OF new_store_handle_inv ex] by simp_all
  then show ?thesis
    using ex by (auto simp: handle_inv_def getDb_again)
qed

theorem getDb_single_handle_witness:
  "fst (exec [Call_init, Call_init, Settle 0 Handle_ready, Settle 1 Handle_ready, Call_getDb]
          (new_store (Fin 20) :: nat FileMetadataStore, [])) = [0, 0, 0]
   \<and> constructed (fst (snd (exec [Call_init, Call_init, Settle 0 Handle_ready, Settle 1 Handle_ready, Call_getDb]
          (new_store (Fin 20) :: nat FileMetadataStore, [])))) = 1"
  using getDb_single_handle
    [of "[Call_init, Call_init, Settle 0 Handle_ready, Settle 1 Handle_ready, Call_getDb]" "Fin 20"
        "new_store (Fin 20) :: nat FileMetadataStore"]
  by (simp add: new_store_def getDb_def initiator_getSyncState_def call_db_def)

end
